theory Spec2Isabelle
  imports Complex_Main
begin

section \<open>Data model\<close>

text \<open>
  The backend stores documents whose numeric fields are JavaScript Numbers. Prices and
  money amounts are modelled as exact rationals, counters (stock, quantity, soldCount,
  usage counts) as integers, dates as integer timestamps (milliseconds), document ids as
  strings. An optional field (\<open>null\<close> / \<open>undefined\<close> in the source) is an \<open>option\<close>.
  A Number used as a condition is true exactly when it is present and not zero.

  The handlers are modelled as functions from the store to a response and the store they
  leave. Fields that no handler below reads (images, descriptions, addresses beyond a
  string, timestamps of creation), the list of orders kept on the user and the
  confirmation e-mail are left out.

  Three behaviours of the document mapper decide what the handlers do and are part of the
  model: a nested path of a stored document (the \<open>variant\<close> of a cart item or of an order
  item) reads as an object whether or not a value was stored; a populated reference that
  selects fields carries only those fields; and the validators of a schema run before its
  pre-save hook.
\<close>

type_synonym objectId = string
type_synonym date = int

fun truthyNum :: "rat option \<Rightarrow> bool" where
  "truthyNum None = False"
| "truthyNum (Some x) = (x \<noteq> 0)"

fun truthyStr :: "string option \<Rightarrow> bool" where
  "truthyStr None = False"
| "truthyStr (Some s) = (s \<noteq> [])"

fun truthyBool :: "bool option \<Rightarrow> bool" where
  "truthyBool None = False"
| "truthyBool (Some b) = b"

subsection \<open>Coupon (models/Coupon.js)\<close>

datatype discount_type = Percentage | Fixed

record coupon =
  code :: string
  description :: "string option"
  discountType :: discount_type
  discountValue :: rat
  minPurchase :: rat
  maxDiscount :: "rat option"
  startDate :: date
  endDate :: date
  usageLimit :: "int option"
  usedCount :: int
  c_isActive :: bool

datatype coupon_error = BelowMinimumPurchase rat | CouponNotValid

text \<open>The virtual \<open>isActiveNow\<close>; \<open>now\<close> is the value of \<open>new Date()\<close>.\<close>

definition isActiveNow :: "date \<Rightarrow> coupon \<Rightarrow> bool" where
  "isActiveNow now c =
     (c_isActive c \<and> now \<ge> startDate c \<and> now \<le> endDate c \<and>
      (case usageLimit c of None \<Rightarrow> True | Some l \<Rightarrow> usedCount c < l))"

definition isValid :: "date \<Rightarrow> coupon \<Rightarrow> bool" where
  "isValid now c = isActiveNow now c"

text \<open>
  The method \<open>calculateDiscount\<close>. Each \<open>throw\<close> is an \<open>Inl\<close>. The guard
  \<open>this.maxDiscount && discount > this.maxDiscount\<close> tests the Number for truthiness.
\<close>

definition calculateDiscount :: "date \<Rightarrow> coupon \<Rightarrow> rat \<Rightarrow> coupon_error + rat" where
  "calculateDiscount now c totalAmount =
     (if totalAmount < minPurchase c then Inl (BelowMinimumPurchase (minPurchase c))
      else if \<not> isValid now c then Inl CouponNotValid
      else
        let discount =
          (if discountType c = Percentage then
             (let d = (totalAmount * discountValue c) / 100 in
              case maxDiscount c of
                None \<Rightarrow> d
              | Some m \<Rightarrow> if truthyNum (Some m) \<and> d > m then m else d)
           else discountValue c)
        in Inr (min discount totalAmount))"

text \<open>
  The public listing \<open>getActiveCoupons\<close> (controllers/couponController.js): a store query
  followed by a projection onto six fields. The query's \<open>$or\<close> accepts a coupon whose
  usageLimit is null or greater than zero.
\<close>

record coupon_listing =
  cl_code :: string
  cl_description :: "string option"
  cl_discountType :: discount_type
  cl_discountValue :: rat
  cl_minPurchase :: rat
  cl_maxDiscount :: "rat option"

definition selectFields :: "coupon \<Rightarrow> coupon_listing" where
  "selectFields c =
     \<lparr> cl_code = code c, cl_description = description c, cl_discountType = discountType c,
       cl_discountValue = discountValue c, cl_minPurchase = minPurchase c,
       cl_maxDiscount = maxDiscount c \<rparr>"

definition activeQuery :: "date \<Rightarrow> coupon \<Rightarrow> bool" where
  "activeQuery now c =
     (c_isActive c \<and> startDate c \<le> now \<and> endDate c \<ge> now \<and>
      (case usageLimit c of None \<Rightarrow> True | Some l \<Rightarrow> l > 0))"

definition getActiveCoupons :: "date \<Rightarrow> coupon list \<Rightarrow> coupon_listing list" where
  "getActiveCoupons now coupons = map selectFields (filter (activeQuery now) coupons)"


subsection \<open>Catalog (models/Product.js)\<close>

record variant =
  v_sku :: string
  v_price :: rat
  v_stock :: int

record product =
  name :: string
  sku :: string
  price :: rat
  stock :: int
  variants :: "variant list"
  isActive :: bool
  isOnSale :: bool
  salePrice :: "rat option"
  saleStart :: "date option"
  saleEnd :: "date option"
  soldCount :: int

text \<open>The virtual \<open>currentPrice\<close>: \<open>this.isOnSale && this.salePrice\<close> selects the sale price.\<close>

definition currentPrice :: "product \<Rightarrow> rat" where
  "currentPrice p =
     (case salePrice p of
        None \<Rightarrow> price p
      | Some s \<Rightarrow> if isOnSale p \<and> truthyNum (Some s) then s else price p)"

text \<open>The method \<open>isOnSaleNow\<close>, the only place of the catalog that reads the sale window.\<close>

definition isOnSaleNow :: "date \<Rightarrow> product \<Rightarrow> bool" where
  "isOnSaleNow now p =
     (if \<not> isOnSale p then False
      else if saleStart p = None \<and> saleEnd p = None then True
      else if (case saleStart p of None \<Rightarrow> False | Some s \<Rightarrow> now < s) then False
      else if (case saleEnd p of None \<Rightarrow> False | Some e \<Rightarrow> now > e) then False
      else True)"

text \<open>
  A variant selector as a request, a cart item or an order item carries it
  (\<open>{color, size, material, sku}\<close>); the code only ever reads its \<open>sku\<close>.
\<close>

record selector =
  sel_color :: "string option"
  sel_size :: "string option"
  sel_material :: "string option"
  sel_sku :: string

text \<open>
  The schemas of the cart item and of the order item declare \<open>variant\<close> as a nested path
  (\<open>variant: {color: String, size: String, material: String, sku: String}\<close>). Reading
  \<open>item.variant\<close> from a stored document gives an object in every case: its fields are
  those of the variant stored, and all undefined when none was stored. As a condition an
  object is true.
\<close>

record nested_variant =
  nv_color :: "string option"
  nv_size :: "string option"
  nv_material :: "string option"
  nv_sku :: "string option"

definition readVariant :: "selector option \<Rightarrow> nested_variant" where
  "readVariant stored =
     (case stored of
        None \<Rightarrow> \<lparr>nv_color = None, nv_size = None, nv_material = None, nv_sku = None\<rparr>
      | Some s \<Rightarrow> \<lparr>nv_color = sel_color s, nv_size = sel_size s, nv_material = sel_material s,
                   nv_sku = Some (sel_sku s)\<rparr>)"

definition truthyObj :: "nested_variant \<Rightarrow> bool" where
  "truthyObj v = True"

text \<open>
  \<open>product.variants.find(v => v.sku === s)\<close> followed by an assignment to the stock of
  the variant found: the first match is updated in place, no match changes nothing.
\<close>

fun updateFirst :: "('a \<Rightarrow> bool) \<Rightarrow> ('a \<Rightarrow> 'a) \<Rightarrow> 'a list \<Rightarrow> 'a list" where
  "updateFirst P f [] = []"
| "updateFirst P f (x # xs) = (if P x then f x # xs else x # updateFirst P f xs)"

subsection \<open>Cart (models/Cart.js)\<close>

record cart_item =
  ci_product :: objectId
  ci_quantity :: int
  ci_variant :: "selector option"
  ci_price :: rat
  ci_total :: rat
  ci_inStock :: bool

record cart_coupon =
  cc_code :: string
  cc_discount :: rat

record cart =
  cart_user :: objectId
  cart_items :: "cart_item list"
  cart_coupon :: "cart_coupon option"

record summary =
  subtotal :: rat
  shipping :: rat
  tax :: rat
  total :: rat
  totalItems :: int

subsection \<open>Order (models/Order.js)\<close>

datatype order_status =
  Pending | Confirmed | Processing | Shipped | Delivered | Cancelled | Refunded

datatype payment_method = Stripe | Momo | Itecpay | Cod

datatype payment_status = PaymentPending | Paid | Failed | PaymentRefunded | PartiallyRefunded

record order_item =
  oi_product :: objectId
  oi_name :: string
  oi_price :: rat
  oi_quantity :: int
  oi_variant :: "selector option"
  oi_sku :: string
  oi_total :: rat

record order_coupon =
  oc_code :: string
  oc_discount :: rat

record history_entry =
  h_status :: order_status
  h_timestamp :: date
  h_note :: "string option"

record order =
  orderNumber :: "string option"
  user :: objectId
  items :: "order_item list"
  itemsPrice :: rat
  taxPrice :: rat
  shippingPrice :: rat
  totalPrice :: rat
  coupon :: "order_coupon option"
  shippingAddress :: string
  shippingCost :: rat
  trackingNumber :: "string option"
  carrier :: "string option"
  deliveredAt :: "date option"
  paymentMethod :: payment_method
  paymentStatus :: payment_status
  orderStatus :: order_status
  statusHistory :: "history_entry list"
  cancelledAt :: "date option"
  cancelledReason :: "string option"

subsection \<open>The document store and the responses\<close>

record store =
  products :: "objectId \<rightharpoonup> product"
  orders :: "objectId \<rightharpoonup> order"
  carts :: "objectId \<rightharpoonup> cart"
  coupons :: "coupon list"

text \<open>
  Every non-2xx response of the handlers, by what it reports: 404 for a missing or inactive
  product, 400 for an unmatched variant, 400 for insufficient stock (with the name of the
  product and the stock available), 400 for an order with no items, the two 400 responses
  of add-to-cart that report the stock available, 404 for a missing order, 400 for an
  order that cannot be cancelled, 500 for a failed save.
\<close>

datatype error =
    NoItems
  | ProductNotFound objectId
  | VariantNotFound string
  | InsufficientStock string int
  | OnlyAvailable int
  | CannotAddMore int
  | OrderNotFound
  | InvalidTransition
  | ServerError


section \<open>Cart Aggregator (controllers/cartController.js)\<close>

text \<open>
  The schema validators of a cart item that a save runs: quantity at least 1, price and
  total not negative. A save that fails them throws, and the handler answers 500.
\<close>

definition cartItemValid :: "cart_item \<Rightarrow> bool" where
  "cartItemValid i = (ci_quantity i \<ge> 1 \<and> ci_price i \<ge> 0 \<and> ci_total i \<ge> 0)"

definition cartValid :: "cart \<Rightarrow> bool" where
  "cartValid c = list_all cartItemValid (cart_items c)"

text \<open>
  \<open>getCart\<close> reads the cart with
  \<open>populate('items.product', 'name slug price images stock sku variants')\<close>: the product
  of an item is the catalog document projected onto the fields selected. The fields
  \<open>isActive\<close>, \<open>isOnSale\<close> and \<open>salePrice\<close>, which the loop reads, are not selected and are
  undefined on the populated product.
\<close>

record populated_product =
  pp_name :: string
  pp_price :: rat
  pp_stock :: int
  pp_sku :: string
  pp_variants :: "variant list"
  pp_isActive :: "bool option"
  pp_isOnSale :: "bool option"
  pp_salePrice :: "rat option"

definition populateProduct :: "product \<Rightarrow> populated_product" where
  "populateProduct p =
     \<lparr> pp_name = name p, pp_price = price p, pp_stock = stock p, pp_sku = sku p,
       pp_variants = variants p, pp_isActive = None, pp_isOnSale = None, pp_salePrice = None \<rparr>"

text \<open>\<open>getCart\<close>, stock and price of the line before the sale price is looked at.\<close>

definition cartResolve :: "populated_product \<Rightarrow> cart_item \<Rightarrow> int \<times> rat" where
  "cartResolve product item =
     (let v = readVariant (ci_variant item) in
      if truthyObj v \<and> pp_variants product \<noteq> [] then
        (case find (\<lambda>x. Some (v_sku x) = nv_sku v) (pp_variants product) of
           None \<Rightarrow> (pp_stock product, pp_price product)
         | Some x \<Rightarrow> (v_stock x, v_price x))
      else (pp_stock product, pp_price product))"

text \<open>\<open>product.isOnSale && product.salePrice ? product.salePrice : variantPrice\<close>\<close>

definition cartCurrentPrice :: "populated_product \<Rightarrow> rat \<Rightarrow> rat" where
  "cartCurrentPrice product variantPrice =
     (case pp_salePrice product of
        None \<Rightarrow> variantPrice
      | Some s \<Rightarrow>
          if truthyBool (pp_isOnSale product) \<and> truthyNum (Some s) then s else variantPrice)"

text \<open>
  The body of the loop of \<open>getCart\<close> for an item that passes the test
  \<open>!product || !product.isActive\<close>.
\<close>

definition cartLine :: "populated_product \<Rightarrow> cart_item \<Rightarrow> cart_item \<times> rat \<times> int" where
  "cartLine product item =
     (case cartResolve product item of
        (availableStock, variantPrice) \<Rightarrow>
          let curPrice = cartCurrentPrice product variantPrice;
              quantity = min (ci_quantity item) availableStock;
              itemTotal = curPrice * of_int quantity
          in (item\<lparr>ci_price := curPrice, ci_total := itemTotal, ci_inStock := (quantity > 0)\<rparr>,
              itemTotal, quantity))"

text \<open>
  The loop of \<open>getCart\<close> over the populated items. The populated product of an item is
  absent when the catalog document is gone. An item whose product is absent, or whose
  \<open>product.isActive\<close> is not true, is skipped and stays in the cart as it is.
\<close>

fun cartLoop ::
  "(objectId \<rightharpoonup> product) \<Rightarrow> cart_item list \<Rightarrow> cart_item list \<Rightarrow> rat \<Rightarrow> int \<Rightarrow>
     cart_item list \<times> rat \<times> int" where
  "cartLoop ps [] seen sub n = (seen, sub, n)"
| "cartLoop ps (item # rest) seen sub n =
     (case map_option populateProduct (ps (ci_product item)) of
        None \<Rightarrow> cartLoop ps rest (seen @ [item]) sub n
      | Some product \<Rightarrow>
          if \<not> truthyBool (pp_isActive product) then cartLoop ps rest (seen @ [item]) sub n
          else
            (case cartLine product item of
               (item', itemTotal, quantity) \<Rightarrow>
                 cartLoop ps rest (seen @ [item']) (sub + itemTotal) (n + quantity)))"

definition emptyCart :: "objectId \<Rightarrow> cart" where
  "emptyCart usr = \<lparr>cart_user = usr, cart_items = [], cart_coupon = None\<rparr>"

definition getCart :: "objectId \<Rightarrow> store \<Rightarrow> (error + cart_item list \<times> summary) \<times> store" where
  "getCart usr st =
     (let c = (case carts st usr of None \<Rightarrow> emptyCart usr | Some c0 \<Rightarrow> c0);
          st0 = st\<lparr>carts := (carts st)(usr \<mapsto> c)\<rparr>
      in case cartLoop (products st) (cart_items c) [] 0 0 of
           (its, sub, n) \<Rightarrow>
             let c' = c\<lparr>cart_items := its\<rparr> in
             if \<not> cartValid c' then (Inl ServerError, st0)
             else
               let shp = (if sub > 50 then 0 else 10);
                   tx = sub * (8 / 100);
                   tot = sub + shp + tx
               in (Inr (its, \<lparr>subtotal = sub, shipping = shp, tax = tx, total = tot,
                                totalItems = n\<rparr>),
                   st0\<lparr>carts := (carts st0)(usr \<mapsto> c')\<rparr>))"

text \<open>\<open>addToCart\<close>: stock, price and sku of the line.\<close>

definition addResolve :: "selector option \<Rightarrow> product \<Rightarrow> error + (int \<times> rat \<times> string)" where
  "addResolve variant product =
     (case variant of
        None \<Rightarrow> Inr (stock product, price product, sku product)
      | Some sel \<Rightarrow>
          if variants product \<noteq> [] then
            (case find (\<lambda>v. v_sku v = sel_sku sel) (variants product) of
               None \<Rightarrow> Inl (VariantNotFound (sel_sku sel))
             | Some v \<Rightarrow> Inr (v_stock v, v_price v, v_sku v))
          else Inr (stock product, price product, sku product))"

text \<open>
  \<open>cart.items.findIndex\<close> with the predicate of \<open>addToCart\<close>: \<open>variant\<close> is the
  selector of the request, \<open>item.variant\<close> the nested path of the stored item.
\<close>

definition sameLine :: "objectId \<Rightarrow> selector option \<Rightarrow> cart_item \<Rightarrow> bool" where
  "sameLine productId variant item =
     (if ci_product item \<noteq> productId then False
      else
        let iv = readVariant (ci_variant item) in
        (case variant of
           Some sel \<Rightarrow> if truthyObj iv then nv_sku iv = Some (sel_sku sel) else False
         | None \<Rightarrow> \<not> truthyObj iv))"

fun findIndex :: "('a \<Rightarrow> bool) \<Rightarrow> 'a list \<Rightarrow> nat option" where
  "findIndex P [] = None"
| "findIndex P (x # xs) =
     (if P x then Some 0 else (case findIndex P xs of None \<Rightarrow> None | Some i \<Rightarrow> Some (Suc i)))"

definition saveCart :: "objectId \<Rightarrow> cart \<Rightarrow> store \<Rightarrow> (error + cart) \<times> store" where
  "saveCart usr c st =
     (if cartValid c then (Inr c, st\<lparr>carts := (carts st)(usr \<mapsto> c)\<rparr>) else (Inl ServerError, st))"

definition addToCart ::
  "objectId \<Rightarrow> objectId \<Rightarrow> int option \<Rightarrow> selector option \<Rightarrow> store \<Rightarrow> (error + cart) \<times> store" where
  "addToCart usr productId q variant st =
     (let quantity = (case q of None \<Rightarrow> 1 | Some k \<Rightarrow> k) in
      case products st productId of
        None \<Rightarrow> (Inl (ProductNotFound productId), st)
      | Some product \<Rightarrow>
          if \<not> isActive product then (Inl (ProductNotFound productId), st)
          else
            (case addResolve variant product of
               Inl e \<Rightarrow> (Inl e, st)
             | Inr (availableStock, variantPrice, variantSku) \<Rightarrow>
                 if availableStock < quantity then (Inl (OnlyAvailable availableStock), st)
                 else
                   let c = (case carts st usr of None \<Rightarrow> emptyCart usr | Some c0 \<Rightarrow> c0);
                       st0 = st\<lparr>carts := (carts st)(usr \<mapsto> c)\<rparr>
                   in (case findIndex (sameLine productId variant) (cart_items c) of
                         Some i \<Rightarrow>
                           let newQuantity = ci_quantity (cart_items c ! i) + quantity in
                           if newQuantity > availableStock
                           then (Inl (CannotAddMore availableStock), st0)
                           else saveCart usr
                                  (c\<lparr>cart_items :=
                                       (cart_items c)[i := (cart_items c ! i)\<lparr>ci_quantity := newQuantity\<rparr>]\<rparr>)
                                  st0
                       | None \<Rightarrow>
                           saveCart usr
                             (c\<lparr>cart_items := cart_items c @
                                  [\<lparr>ci_product = productId, ci_quantity = quantity,
                                    ci_variant =
                                      (case variant of None \<Rightarrow> None
                                       | Some sel \<Rightarrow> Some (sel\<lparr>sel_sku := variantSku\<rparr>)),
                                    ci_price = variantPrice,
                                    ci_total = variantPrice * of_int quantity,
                                    ci_inStock = True\<rparr>]\<rparr>)
                             st0)))"


section \<open>Order Assembler (createOrder)\<close>

record order_line =
  l_product :: objectId
  l_variant :: "selector option"
  l_quantity :: int

record order_request =
  r_items :: "order_line list"
  r_shippingAddress :: string
  r_paymentMethod :: payment_method
  r_couponCode :: "string option"

text \<open>
  Stock, price and sku of a line. The price starts as
  \<open>product.currentPrice || product.price\<close> and is overwritten by the price of the variant
  when one is matched.
\<close>

definition orderResolve :: "order_line \<Rightarrow> product \<Rightarrow> error + (int \<times> rat \<times> string)" where
  "orderResolve item product =
     (let basePrice = (if currentPrice product \<noteq> 0 then currentPrice product else price product) in
      case l_variant item of
        None \<Rightarrow> Inr (stock product, basePrice, sku product)
      | Some sel \<Rightarrow>
          if variants product \<noteq> [] then
            (case find (\<lambda>v. v_sku v = sel_sku sel) (variants product) of
               None \<Rightarrow> Inl (VariantNotFound (sel_sku sel))
             | Some v \<Rightarrow> Inr (v_stock v, v_price v, v_sku v))
          else Inr (stock product, basePrice, sku product))"

text \<open>"Reduce stock" and "Update sold count": the product as it is saved.\<close>

definition reduceStock :: "order_line \<Rightarrow> product \<Rightarrow> product" where
  "reduceStock item product =
     (let p1 =
        (case l_variant item of
           Some sel \<Rightarrow>
             product\<lparr>variants :=
               updateFirst (\<lambda>v. v_sku v = sel_sku sel)
                 (\<lambda>v. v\<lparr>v_stock := v_stock v - l_quantity item\<rparr>) (variants product)\<rparr>
         | None \<Rightarrow> product\<lparr>stock := stock product - l_quantity item\<rparr>)
      in p1\<lparr>soldCount := soldCount p1 + l_quantity item\<rparr>)"

definition orderItem :: "order_line \<Rightarrow> product \<Rightarrow> rat \<Rightarrow> string \<Rightarrow> order_item" where
  "orderItem item product variantPrice variantSku =
     \<lparr> oi_product = l_product item, oi_name = name product, oi_price = variantPrice,
       oi_quantity = l_quantity item,
       oi_variant =
         (case l_variant item of None \<Rightarrow> None | Some sel \<Rightarrow> Some (sel\<lparr>sel_sku := variantSku\<rparr>)),
       oi_sku = variantSku,
       oi_total = variantPrice * of_int (l_quantity item) \<rparr>"

text \<open>
  The loop over the lines of the request. Each line reads its product from the catalog,
  and each accepted line saves it back before the next line is read; a line that is
  refused returns at once, with the catalog as the lines before it left it.
\<close>

fun processItems ::
  "(objectId \<rightharpoonup> product) \<Rightarrow> order_line list \<Rightarrow> order_item list \<Rightarrow> rat \<Rightarrow>
     (error + order_item list \<times> rat) \<times> (objectId \<rightharpoonup> product)" where
  "processItems ps [] orderItems acc = (Inr (orderItems, acc), ps)"
| "processItems ps (item # rest) orderItems acc =
     (case ps (l_product item) of
        None \<Rightarrow> (Inl (ProductNotFound (l_product item)), ps)
      | Some product \<Rightarrow>
          if \<not> isActive product then (Inl (ProductNotFound (l_product item)), ps)
          else
            (case orderResolve item product of
               Inl e \<Rightarrow> (Inl e, ps)
             | Inr (availableStock, variantPrice, variantSku) \<Rightarrow>
                 if availableStock < l_quantity item
                 then (Inl (InsufficientStock (name product) availableStock), ps)
                 else
                   processItems (ps(l_product item \<mapsto> reduceStock item product)) rest
                     (orderItems @ [orderItem item product variantPrice variantSku])
                     (acc + variantPrice * of_int (l_quantity item))))"

text \<open>
  The order document that \<open>createOrder\<close> hands to \<open>Order.create\<close>: shipping, tax, total,
  the coupon and the fields of the request. The handler sets no \<open>orderNumber\<close>; status and
  history take their defaults.
\<close>

definition orderDocument :: "objectId \<Rightarrow> order_request \<Rightarrow> order_item list \<Rightarrow> rat \<Rightarrow> order" where
  "orderDocument usr req orderItems sub =
     (let shp = (if sub > 50 then 0 else 10);
          tx = sub * (8 / 100);
          tot = sub + shp + tx;
          discount = sub * (1 / 10)
      in \<lparr> orderNumber = None, user = usr, items = orderItems,
           itemsPrice = sub, taxPrice = tx, shippingPrice = shp,
           totalPrice = (if truthyStr (r_couponCode req) then tot - discount else tot),
           coupon =
             (case r_couponCode req of
                None \<Rightarrow> None
              | Some cd \<Rightarrow>
                  if truthyStr (Some cd)
                  then Some \<lparr>oc_code = cd, oc_discount = discount\<rparr> else None),
           shippingAddress = r_shippingAddress req, shippingCost = shp,
           trackingNumber = None, carrier = None, deliveredAt = None,
           paymentMethod = r_paymentMethod req, paymentStatus = PaymentPending,
           orderStatus = Pending, statusHistory = [],
           cancelledAt = None, cancelledReason = None \<rparr>)"

text \<open>
  \<open>createOrder\<close> up to the call of \<open>Order.create\<close>: the check for an empty request, the
  loop, and the document. The catalog is returned as the loop left it.
\<close>

definition createOrderDocument ::
  "objectId \<Rightarrow> order_request \<Rightarrow> store \<Rightarrow> (error + order) \<times> store" where
  "createOrderDocument usr req st =
     (if r_items req = [] then (Inl NoItems, st)
      else
        (case processItems (products st) (r_items req) [] 0 of
           (Inl e, ps) \<Rightarrow> (Inl e, st\<lparr>products := ps\<rparr>)
         | (Inr (orderItems, sub), ps) \<Rightarrow>
             (Inr (orderDocument usr req orderItems sub), st\<lparr>products := ps\<rparr>)))"

text \<open>
  The validators of the order schema: \<open>orderNumber\<close> is required, and the amounts have
  their minimums.
\<close>

definition orderItemValid :: "order_item \<Rightarrow> bool" where
  "orderItemValid i = (oi_price i \<ge> 0 \<and> oi_quantity i \<ge> 1 \<and> oi_total i \<ge> 0)"

definition orderValid :: "order \<Rightarrow> bool" where
  "orderValid ord =
     (orderNumber ord \<noteq> None \<and>
      list_all orderItemValid (items ord) \<and> itemsPrice ord \<ge> 0 \<and> taxPrice ord \<ge> 0 \<and>
      shippingPrice ord \<ge> 0 \<and> totalPrice ord \<ge> 0 \<and> shippingCost ord \<ge> 0)"

text \<open>
  \<open>Order.create\<close>: the document is validated, then the pre-save hook gives it an order
  number when it has none (\<open>generated\<close> is the number the hook would make), then it is
  stored. A document that fails validation throws before the hook runs.
\<close>

definition orderCreate :: "string \<Rightarrow> order \<Rightarrow> error + order" where
  "orderCreate generated doc =
     (if \<not> orderValid doc then Inl ServerError
      else Inr (case orderNumber doc of
                  None \<Rightarrow> doc\<lparr>orderNumber := Some generated\<rparr>
                | Some k \<Rightarrow> doc))"

text \<open>
  \<open>createOrder\<close>. \<open>newId\<close> is the document id the store would give. An exception of
  \<open>Order.create\<close> is caught by the handler, which answers 500; the products saved by the
  loop stay saved.
\<close>

definition createOrder ::
  "objectId \<Rightarrow> string \<Rightarrow> objectId \<Rightarrow> order_request \<Rightarrow> store \<Rightarrow> (error + order) \<times> store" where
  "createOrder newId orderNo usr req st =
     (case createOrderDocument usr req st of
        (Inl e, st') \<Rightarrow> (Inl e, st')
      | (Inr doc, st') \<Rightarrow>
          (case orderCreate orderNo doc of
             Inl e \<Rightarrow> (Inl ServerError, st')
           | Inr ord \<Rightarrow> (Inr ord, st'\<lparr>orders := (orders st')(newId \<mapsto> ord)\<rparr>)))"

section \<open>Order Lifecycle\<close>

text \<open>The enum validator of \<open>orderStatus\<close>.\<close>

definition parseStatus :: "string \<Rightarrow> order_status option" where
  "parseStatus s =
     (if s = ''pending'' then Some Pending
      else if s = ''confirmed'' then Some Confirmed
      else if s = ''processing'' then Some Processing
      else if s = ''shipped'' then Some Shipped
      else if s = ''delivered'' then Some Delivered
      else if s = ''cancelled'' then Some Cancelled
      else if s = ''refunded'' then Some Refunded
      else None)"

text \<open>
  The pre-save hook of the order schema for an order that has its number.
  \<open>statusModified\<close> is \<open>this.isModified('orderStatus')\<close>: the status assigned differs
  from the status loaded.
\<close>

definition preSave :: "date \<Rightarrow> bool \<Rightarrow> order \<Rightarrow> order" where
  "preSave now statusModified ord =
     (if statusModified then
        ord\<lparr>statusHistory := statusHistory ord @
          [\<lparr> h_status = orderStatus ord, h_timestamp = now,
             h_note = (if orderStatus ord = Cancelled then cancelledReason ord
                       else Some ''Status updated'') \<rparr>]\<rparr>
      else ord)"

definition updateOrderStatus ::
  "date \<Rightarrow> objectId \<Rightarrow> string \<Rightarrow> string option \<Rightarrow> string option \<Rightarrow> store \<Rightarrow>
     (error + order) \<times> store" where
  "updateOrderStatus now oid status tracking carr st =
     (case orders st oid of
        None \<Rightarrow> (Inl OrderNotFound, st)
      | Some ord \<Rightarrow>
          (case parseStatus status of
             None \<Rightarrow> (Inl ServerError, st)
           | Some s \<Rightarrow>
               let o1 = ord\<lparr>orderStatus := s\<rparr>;
                   o2 = (if truthyStr tracking then o1\<lparr>trackingNumber := tracking\<rparr> else o1);
                   o3 = (if truthyStr carr then o2\<lparr>carrier := carr\<rparr> else o2);
                   o4 = (if s = Delivered then o3\<lparr>deliveredAt := Some now\<rparr> else o3);
                   o5 = preSave now (s \<noteq> orderStatus ord) o4
               in (Inr o5, st\<lparr>orders := (orders st)(oid \<mapsto> o5)\<rparr>)))"

text \<open>
  "Restore product stock": the product as the loop of \<open>cancelOrder\<close> saves it.
  \<open>item.variant\<close> is the nested path of the stored order item.
\<close>

definition restoreStock :: "order_item \<Rightarrow> product \<Rightarrow> product" where
  "restoreStock item product =
     (let v = readVariant (oi_variant item);
          p1 =
            (if truthyObj v then
               product\<lparr>variants :=
                 updateFirst (\<lambda>x. Some (v_sku x) = nv_sku v)
                   (\<lambda>x. x\<lparr>v_stock := v_stock x + oi_quantity item\<rparr>) (variants product)\<rparr>
             else product\<lparr>stock := stock product + oi_quantity item\<rparr>)
      in p1\<lparr>soldCount := soldCount p1 - oi_quantity item\<rparr>)"

fun restoreLoop :: "(objectId \<rightharpoonup> product) \<Rightarrow> order_item list \<Rightarrow> (objectId \<rightharpoonup> product)" where
  "restoreLoop ps [] = ps"
| "restoreLoop ps (item # rest) =
     (case ps (oi_product item) of
        None \<Rightarrow> restoreLoop ps rest
      | Some product \<Rightarrow> restoreLoop (ps(oi_product item \<mapsto> restoreStock item product)) rest)"

text \<open>The method \<open>cancelOrder\<close> of the order model, with its save.\<close>

definition cancelOrderMethod :: "date \<Rightarrow> string option \<Rightarrow> order \<Rightarrow> order" where
  "cancelOrderMethod now reason ord =
     preSave now (Cancelled \<noteq> orderStatus ord)
       (ord\<lparr>orderStatus := Cancelled, cancelledAt := Some now, cancelledReason := reason\<rparr>)"

definition cancelOrder ::
  "date \<Rightarrow> objectId \<Rightarrow> objectId \<Rightarrow> string option \<Rightarrow> store \<Rightarrow> (error + unit) \<times> store" where
  "cancelOrder now oid usr reason st =
     (case orders st oid of
        None \<Rightarrow> (Inl OrderNotFound, st)
      | Some ord \<Rightarrow>
          if user ord \<noteq> usr then (Inl OrderNotFound, st)
          else if orderStatus ord \<noteq> Pending \<and> orderStatus ord \<noteq> Confirmed
          then (Inl InvalidTransition, st)
          else
            (Inr (),
             st\<lparr>orders := (orders st)(oid \<mapsto> cancelOrderMethod now reason ord),
                products := restoreLoop (products st) (items ord)\<rparr>))"


section \<open>Example documents\<close>

text \<open>Coupons valid from time 0 to time 100.\<close>

definition negCapCoupon :: coupon where
  "negCapCoupon =
     \<lparr> code = ''NEG'', description = None, discountType = Percentage, discountValue = 20,
       minPurchase = 0, maxDiscount = Some (- 5), startDate = 0, endDate = 100,
       usageLimit = None, usedCount = 0, c_isActive = True \<rparr>"

definition zeroCapCoupon :: coupon where
  "zeroCapCoupon =
     \<lparr> code = ''ZERO'', description = None, discountType = Percentage, discountValue = 20,
       minPurchase = 0, maxDiscount = Some 0, startDate = 0, endDate = 100,
       usageLimit = None, usedCount = 0, c_isActive = True \<rparr>"

definition cappedCoupon :: coupon where
  "cappedCoupon =
     \<lparr> code = ''SAVE20'', description = None, discountType = Percentage, discountValue = 20,
       minPurchase = 0, maxDiscount = Some 30, startDate = 0, endDate = 100,
       usageLimit = Some 3, usedCount = 3, c_isActive = True \<rparr>"

definition fiveOffCoupon :: coupon where
  "fiveOffCoupon =
     \<lparr> code = ''SAVE5'', description = None, discountType = Fixed, discountValue = 5,
       minPurchase = 0, maxDiscount = None, startDate = 0, endDate = 100,
       usageLimit = None, usedCount = 0, c_isActive = True \<rparr>"

text \<open>
  A catalog of four products: a mug (price 50, stock 5), a lamp (price 30, stock 1), a shirt
  with one variant, and the same shirt on sale at 80 with a sale window from 10 to 20.
\<close>

definition mug :: product where
  "mug = \<lparr> name = ''Mug'', sku = ''MUG'', price = 50, stock = 5, variants = [],
            isActive = True, isOnSale = False, salePrice = None, saleStart = None,
            saleEnd = None, soldCount = 0 \<rparr>"

definition lamp :: product where
  "lamp = \<lparr> name = ''Lamp'', sku = ''LAMP'', price = 30, stock = 1, variants = [],
             isActive = True, isOnSale = False, salePrice = None, saleStart = None,
             saleEnd = None, soldCount = 0 \<rparr>"

definition shirt :: product where
  "shirt = \<lparr> name = ''Shirt'', sku = ''SHIRT'', price = 100, stock = 9,
              variants = [\<lparr>v_sku = ''SHIRT-M'', v_price = 120, v_stock = 4\<rparr>],
              isActive = True, isOnSale = False, salePrice = None, saleStart = None,
              saleEnd = None, soldCount = 0 \<rparr>"

definition saleShirt :: product where
  "saleShirt = \<lparr> name = ''Shirt'', sku = ''SHIRT-S'', price = 100, stock = 9,
              variants = [\<lparr>v_sku = ''SHIRT-S-M'', v_price = 120, v_stock = 4\<rparr>],
              isActive = True, isOnSale = True, salePrice = Some 80, saleStart = Some 10,
              saleEnd = Some 20, soldCount = 0 \<rparr>"

definition skuSelector :: "string \<Rightarrow> selector" where
  "skuSelector s = \<lparr> sel_color = None, sel_size = None, sel_material = None, sel_sku = s \<rparr>"

definition cartItem :: "objectId \<Rightarrow> selector option \<Rightarrow> int \<Rightarrow> rat \<Rightarrow> cart_item" where
  "cartItem pid v q pr = \<lparr> ci_product = pid, ci_quantity = q, ci_variant = v, ci_price = pr,
                            ci_total = pr * of_int q, ci_inStock = True \<rparr>"

definition cartOf :: "objectId \<Rightarrow> cart_item list \<Rightarrow> cart" where
  "cartOf usr its = \<lparr> cart_user = usr, cart_items = its, cart_coupon = None \<rparr>"

text \<open>
  The store: user u1 has one mug in the cart, user u2 two shirts with a selector that
  matches no variant, user u3 one shirt on sale.
\<close>

definition shopStore :: store where
  "shopStore =
     \<lparr> products = [''p1'' \<mapsto> mug, ''p2'' \<mapsto> lamp, ''p3'' \<mapsto> shirt, ''p4'' \<mapsto> saleShirt],
       orders = Map.empty,
       carts = [''u1'' \<mapsto> cartOf ''u1'' [cartItem ''p1'' None 1 50],
                ''u2'' \<mapsto> cartOf ''u2'' [cartItem ''p3'' (Some (skuSelector ''SHIRT-XL'')) 2 120],
                ''u3'' \<mapsto> cartOf ''u3'' [cartItem ''p4'' None 1 100]],
       coupons = [fiveOffCoupon] \<rparr>"

definition orderLine :: "objectId \<Rightarrow> selector option \<Rightarrow> int \<Rightarrow> order_line" where
  "orderLine pid v q = \<lparr> l_product = pid, l_variant = v, l_quantity = q \<rparr>"

definition request :: "order_line list \<Rightarrow> string option \<Rightarrow> order_request" where
  "request ls cd = \<lparr> r_items = ls, r_shippingAddress = ''1 Main St'', r_paymentMethod = Cod,
                      r_couponCode = cd \<rparr>"

text \<open>
  A stored pending order of user u1 with the number ORD-1, given its items, amounts and
  coupon, and the document \<open>createOrder\<close> builds for a request made by \<open>request\<close>: the
  same without a number.
\<close>

definition placedOrder ::
  "order_item list \<Rightarrow> rat \<Rightarrow> rat \<Rightarrow> rat \<Rightarrow> rat \<Rightarrow> order_coupon option \<Rightarrow> order" where
  "placedOrder its sub tx shp tot cpn =
     \<lparr> orderNumber = Some ''ORD-1'', user = ''u1'', items = its, itemsPrice = sub, taxPrice = tx,
       shippingPrice = shp, totalPrice = tot, coupon = cpn, shippingAddress = ''1 Main St'',
       shippingCost = shp, trackingNumber = None, carrier = None, deliveredAt = None,
       paymentMethod = Cod, paymentStatus = PaymentPending, orderStatus = Pending,
       statusHistory = [], cancelledAt = None, cancelledReason = None \<rparr>"

definition draftOrder ::
  "order_item list \<Rightarrow> rat \<Rightarrow> rat \<Rightarrow> rat \<Rightarrow> rat \<Rightarrow> order_coupon option \<Rightarrow> order" where
  "draftOrder its sub tx shp tot cpn = (placedOrder its sub tx shp tot cpn)\<lparr>orderNumber := None\<rparr>"

definition mugItem :: "int \<Rightarrow> order_item" where
  "mugItem q = \<lparr> oi_product = ''p1'', oi_name = ''Mug'', oi_price = 50, oi_quantity = q,
                  oi_variant = None, oi_sku = ''MUG'', oi_total = 50 * of_int q \<rparr>"

definition shirtItem :: order_item where
  "shirtItem = \<lparr> oi_product = ''p3'', oi_name = ''Shirt'', oi_price = 120, oi_quantity = 1,
                  oi_variant = Some (skuSelector ''SHIRT-M''), oi_sku = ''SHIRT-M'',
                  oi_total = 120 \<rparr>"

text \<open>
  A stored order of two mugs and one shirt of variant SHIRT-M, in a store whose catalog is
  as the lines of that order leave it: the mug at stock 3 and soldCount 2, the variant at
  stock 3 and the shirt at soldCount 1.
\<close>

definition twoLineOrder :: order where
  "twoLineOrder = placedOrder [mugItem 2, shirtItem] 220 (88 / 5) 0 (1188 / 5) None"

definition soldStore :: store where
  "soldStore =
     shopStore\<lparr>
       products := (products shopStore)
         (''p1'' \<mapsto> mug\<lparr>stock := 3, soldCount := 2\<rparr>,
          ''p3'' \<mapsto> shirt\<lparr>variants := [\<lparr>v_sku = ''SHIRT-M'', v_price = 120, v_stock = 3\<rparr>],
                            soldCount := 1\<rparr>),
       orders := [''o1'' \<mapsto> twoLineOrder]\<rparr>"

definition shippedStore :: store where
  "shippedStore = soldStore\<lparr>orders := [''o1'' \<mapsto> twoLineOrder\<lparr>orderStatus := Shipped\<rparr>]\<rparr>"

section \<open>Coupon Evaluator\<close>

text \<open>
  C6, as the code has it. Whenever \<open>calculateDiscount\<close> returns a discount, the discount
  is at most \<open>totalAmount\<close>; it is at least 0 when \<open>maxDiscount\<close> is unset or not negative
  (and \<open>discountValue\<close> and \<open>minPurchase\<close> are not negative, as the schema demands). The
  code has no lower clamp and the schema puts no bound on \<open>maxDiscount\<close>.
\<close>

theorem calculateDiscount_range:
  assumes "calculateDiscount now c totalAmount = Inr d"
  shows "d \<le> totalAmount \<and>
         ((case maxDiscount c of None \<Rightarrow> True | Some m \<Rightarrow> 0 \<le> m) \<and>
          0 \<le> discountValue c \<and> 0 \<le> minPurchase c \<longrightarrow> 0 \<le> d)"
proof -
  from assms have ok: "minPurchase c \<le> totalAmount"
    by (auto simp: calculateDiscount_def split: if_splits)
  from assms obtain x where d: "d = min x totalAmount"
    and x: "x = (if discountType c = Percentage then
             (let d = (totalAmount * discountValue c) / 100 in
              case maxDiscount c of
                None \<Rightarrow> d
              | Some m \<Rightarrow> if truthyNum (Some m) \<and> d > m then m else d)
           else discountValue c)"
    by (auto simp: calculateDiscount_def Let_def split: if_splits)
  have upper: "d \<le> totalAmount" using d by simp
  have lower: "0 \<le> d"
    if m: "case maxDiscount c of None \<Rightarrow> True | Some m \<Rightarrow> 0 \<le> m"
      and v: "0 \<le> discountValue c" and p: "0 \<le> minPurchase c"
  proof -
    have t: "0 \<le> totalAmount" using ok p by simp
    have "0 \<le> totalAmount * discountValue c / 100" using t v by simp
    then have "0 \<le> x" using m v unfolding x
      by (auto simp: Let_def split: option.splits)
    then show ?thesis using d t by simp
  qed
  show ?thesis using upper lower by blast
qed

theorem calculateDiscount_range_witness:
  "calculateDiscount 50 (cappedCoupon\<lparr>usedCount := 0\<rparr>) 200 = Inr 30 \<and>
   (30::rat) \<le> 200 \<and> (0::rat) \<le> 30"
  using calculateDiscount_range [of 50 "cappedCoupon\<lparr>usedCount := 0\<rparr>" 200 30]
  by (simp add: calculateDiscount_def isValid_def isActiveNow_def cappedCoupon_def)

text \<open>
  C6 as stated fails: a percentage coupon of 20 with \<open>maxDiscount = -5\<close>, valid now, gives
  the discount -5 on a total of 200, below the interval [0, 200].
\<close>

theorem negative_cap_counterexample:
  "calculateDiscount 50 negCapCoupon 200 = Inr (- 5) \<and> \<not> (0 \<le> (- 5 :: rat))"
  by (simp add: calculateDiscount_def isValid_def isActiveNow_def negCapCoupon_def)

text \<open>
  C7 at \<open>maxDiscount = 0\<close>: a percentage coupon of 20 with the cap set to 0, valid now, gives
  the discount 40 on a total of 200. The cap 0 is not applied: the guard reads the cap as a
  condition, and 0 is false.
\<close>

theorem zero_cap_not_applied:
  "calculateDiscount 50 zeroCapCoupon 200 = Inr 40"
  by (simp add: calculateDiscount_def isValid_def isActiveNow_def zeroCapCoupon_def)

text \<open>
  For every other cap the percentage rule is the one of the specification, followed by the
  final bound by \<open>totalAmount\<close>.
\<close>

lemma percentage_discount_nonzero_cap:
  assumes "discountType c = Percentage" "minPurchase c \<le> totalAmount" "isActiveNow now c"
    "maxDiscount c \<noteq> Some 0"
  shows "calculateDiscount now c totalAmount =
           Inr (min (case maxDiscount c of
                       None \<Rightarrow> totalAmount * discountValue c / 100
                     | Some m \<Rightarrow> min (totalAmount * discountValue c / 100) m)
                    totalAmount)"
  using assms
  by (auto simp: calculateDiscount_def isValid_def Let_def min_def split: option.splits)

text \<open>
  C10. A coupon that is active, inside its window and has a positive usage limit is in the
  public listing whatever its \<open>usedCount\<close>; when the limit is used up the coupon is still
  listed although \<open>isActiveNow\<close> is false and \<open>calculateDiscount\<close> returns no discount.
\<close>

theorem exhausted_coupon_listed:
  assumes "c \<in> set cs" "c_isActive c" "startDate c \<le> now" "now \<le> endDate c"
    "usageLimit c = Some l" "0 < l"
  shows "selectFields c \<in> set (getActiveCoupons now cs) \<and>
         (l \<le> usedCount c \<longrightarrow>
            \<not> isActiveNow now c \<and> (\<exists>e. calculateDiscount now c totalAmount = Inl e))"
  using assms
  by (auto simp: getActiveCoupons_def activeQuery_def isActiveNow_def isValid_def
      calculateDiscount_def)

theorem exhausted_coupon_listed_witness:
  "cappedCoupon \<in> set [cappedCoupon] \<and> c_isActive cappedCoupon \<and>
   startDate cappedCoupon \<le> 50 \<and> 50 \<le> endDate cappedCoupon \<and>
   usageLimit cappedCoupon = Some 3 \<and> (0::int) < 3 \<and> 3 \<le> usedCount cappedCoupon \<and>
   selectFields cappedCoupon \<in> set (getActiveCoupons 50 [cappedCoupon]) \<and>
   \<not> isActiveNow 50 cappedCoupon \<and> (\<exists>e. calculateDiscount 50 cappedCoupon 200 = Inl e)"
  using exhausted_coupon_listed [of cappedCoupon "[cappedCoupon]" 50 3 200]
  by (simp add: cappedCoupon_def)

section \<open>Facts about the loops\<close>

lemma createOrderDocument_success:
  assumes "createOrderDocument usr req st = (Inr doc, st')"
  obtains ois sub ps where
    "processItems (products st) (r_items req) [] 0 = (Inr (ois, sub), ps)"
    "doc = orderDocument usr req ois sub"
    "st' = st\<lparr>products := ps\<rparr>"
proof (cases "processItems (products st) (r_items req) [] 0")
  case (Pair r ps)
  show ?thesis
  proof (cases r)
    case (Inl e)
    with Pair assms show ?thesis
      by (simp add: createOrderDocument_def split: if_splits)
  next
    case (Inr b)
    obtain ois sub where b: "b = (ois, sub)" by (cases b)
    from assms Pair Inr b show ?thesis
      by (intro that [of ois sub ps]) (auto simp: createOrderDocument_def split: if_splits)
  qed
qed

lemma createOrderDocument_fst:
  assumes "fst (createOrderDocument usr req st) = Inr doc"
  shows "createOrderDocument usr req st = (Inr doc, snd (createOrderDocument usr req st))"
  using assms by (metis prod.collapse)

lemma orderDocument_fields:
  "itemsPrice (orderDocument usr req ois sub) = sub"
  "items (orderDocument usr req ois sub) = ois"
  "shippingPrice (orderDocument usr req ois sub) = (if sub > 50 then 0 else 10)"
  "taxPrice (orderDocument usr req ois sub) = sub * (8 / 100)"
  "orderNumber (orderDocument usr req ois sub) = None"
  by (simp_all add: orderDocument_def Let_def)

text \<open>
  The handler never stores an order: the document it builds has no order number, the
  schema requires one, and validation runs before the hook that would generate it. Every
  request whose lines are all accepted is answered with 500, with the stock of its lines
  reduced.
\<close>

lemma createOrder_never_stores:
  "fst (createOrder newId orderNo usr req st) \<noteq> Inr ord \<and>
   orders (snd (createOrder newId orderNo usr req st)) = orders st \<and>
   (fst (createOrderDocument usr req st) = Inr doc \<longrightarrow>
      createOrder newId orderNo usr req st =
        (Inl ServerError, snd (createOrderDocument usr req st)))"
proof (cases "createOrderDocument usr req st")
  case (Pair r st')
  show ?thesis
  proof (cases r)
    case (Inl e)
    with Pair show ?thesis
      by (auto simp: createOrder_def createOrderDocument_def split: if_splits prod.splits sum.splits)
  next
    case (Inr d)
    with Pair obtain ois sub ps where "d = orderDocument usr req ois sub" "st' = st\<lparr>products := ps\<rparr>"
      by (auto elim: createOrderDocument_success)
    with Pair Inr show ?thesis
      by (auto simp: createOrder_def orderCreate_def orderValid_def orderDocument_fields)
  qed
qed

lemma processItems_append:
  "processItems ps (xs @ ys) ois acc =
     (case processItems ps xs ois acc of
        (Inl e, ps') \<Rightarrow> (Inl e, ps')
      | (Inr (ois', acc'), ps') \<Rightarrow> processItems ps' ys ois' acc')"
proof (induction xs arbitrary: ps ois acc)
  case Nil
  show ?case by simp
next
  case (Cons x xs)
  show ?case
  proof (cases "ps (l_product x)")
    case None
    then show ?thesis by simp
  next
    case (Some p)
    show ?thesis
    proof (cases "orderResolve x p")
      case (Inl e)
      with Some show ?thesis by simp
    next
      case (Inr r)
      obtain a vp vs where r: "r = (a, vp, vs)" by (cases r)
      from Some Inr r show ?thesis
        by (simp add: Cons.IH fun_upd_def)
    qed
  qed
qed

text \<open>
  The loop of the cart read skips every item: \<open>isActive\<close> is not among the fields of the
  populated product. The items stay as stored, and subtotal and item count stay 0.
\<close>

lemma cartLoop_skips: "cartLoop ps its seen sub n = (seen @ its, sub, n)"
proof (induction its arbitrary: seen)
  case Nil
  show ?case by simp
next
  case (Cons item rest)
  show ?case
    by (cases "ps (ci_product item)") (simp_all add: Cons.IH populateProduct_def)
qed

lemma getCart_skips_every_item:
  assumes "fst (getCart usr st) = Inr (its, sm)"
  shows "its = (case carts st usr of None \<Rightarrow> [] | Some c \<Rightarrow> cart_items c) \<and>
         sm = \<lparr>subtotal = 0, shipping = 10, tax = 0, total = 10, totalItems = 0\<rparr>"
  using assms
  by (auto simp: getCart_def cartLoop_skips emptyCart_def Let_def split: option.splits if_splits)

lemma updateFirst_Nil_iff: "updateFirst P f xs = [] \<longleftrightarrow> xs = []"
  by (cases xs) simp_all

lemma reduceStock_pricing:
  "price (reduceStock item p) = price p" "isOnSale (reduceStock item p) = isOnSale p"
  "salePrice (reduceStock item p) = salePrice p"
  "variants (reduceStock item p) = [] \<longleftrightarrow> variants p = []"
  by (simp_all add: reduceStock_def Let_def updateFirst_Nil_iff split: option.splits)

text \<open>
  The price of an order item whose line matches no variant is \<open>currentPrice\<close> of the
  product as the catalog had it before the request: the loop never writes a price.
\<close>

lemma processItems_prices:
  assumes "processItems ps ls ois acc = (Inr (ois', acc'), ps')"
  shows "\<exists>added. ois' = ois @ added \<and>
           list_all2 (\<lambda>l oi. \<forall>p. ps (l_product l) = Some p \<longrightarrow>
                               (l_variant l = None \<or> variants p = []) \<longrightarrow>
                               oi_price oi = currentPrice p) ls added"
  using assms
proof (induction ls arbitrary: ps ois acc)
  case Nil
  then show ?case by simp
next
  case (Cons item rest)
  from Cons.prems obtain p0 where p0: "ps (l_product item) = Some p0"
    by (cases "ps (l_product item)") auto
  from Cons.prems p0 obtain a vp vs where r: "orderResolve item p0 = Inr (a, vp, vs)"
    by (cases "orderResolve item p0") (auto split: if_splits)
  let ?oi = "orderItem item p0 vp vs"
  let ?ps1 = "ps(l_product item \<mapsto> reduceStock item p0)"
  from Cons.prems p0 r have
    step: "processItems ?ps1 rest (ois @ [?oi]) (acc + vp * of_int (l_quantity item)) =
             (Inr (ois', acc'), ps')"
    by (simp split: if_splits)
  from Cons.IH [OF step] obtain added where
    added: "ois' = (ois @ [?oi]) @ added"
    and tl: "list_all2 (\<lambda>l oi. \<forall>p. ?ps1 (l_product l) = Some p \<longrightarrow>
                               (l_variant l = None \<or> variants p = []) \<longrightarrow>
                               oi_price oi = currentPrice p) rest added"
    by blast
  have cp: "currentPrice (reduceStock item p0) = currentPrice p0"
    by (simp add: currentPrice_def reduceStock_pricing split: option.splits)
  have hd: "oi_price ?oi = currentPrice p0" if "l_variant item = None \<or> variants p0 = []"
    using that r
    by (auto simp: orderResolve_def orderItem_def currentPrice_def Let_def
        split: option.splits if_splits)
  have tl': "list_all2 (\<lambda>l oi. \<forall>p. ps (l_product l) = Some p \<longrightarrow>
                               (l_variant l = None \<or> variants p = []) \<longrightarrow>
                               oi_price oi = currentPrice p) rest added"
    using tl
  proof (rule list_all2_mono)
    fix l oi
    assume h: "\<forall>p. ?ps1 (l_product l) = Some p \<longrightarrow>
                 (l_variant l = None \<or> variants p = []) \<longrightarrow> oi_price oi = currentPrice p"
    show "\<forall>p. ps (l_product l) = Some p \<longrightarrow>
                 (l_variant l = None \<or> variants p = []) \<longrightarrow> oi_price oi = currentPrice p"
    proof (intro allI impI)
      fix p
      assume p: "ps (l_product l) = Some p" and c: "l_variant l = None \<or> variants p = []"
      show "oi_price oi = currentPrice p"
      proof (cases "l_product l = l_product item")
        case True
        with p p0 have "p = p0" by simp
        with True h c cp show ?thesis by (auto simp: reduceStock_pricing)
      next
        case False
        with h p c show ?thesis by auto
      qed
    qed
  qed
  show ?case
    using added hd tl' p0 by (intro exI [of _ "?oi # added"]) simp
qed

subsection \<open>Restoring stock\<close>

lemma updateFirst_inverse:
  assumes "\<And>x. P (f x) = P x" "\<And>x. g (f x) = x"
  shows "updateFirst P g (updateFirst P f xs) = xs"
  by (induction xs) (simp_all add: assms)

text \<open>
  For a line with a selector, restoring the order item undoes what the loop of
  \<open>createOrder\<close> did to the product.
\<close>

lemma restoreStock_reduceStock_variant:
  assumes "orderResolve item p = Inr (a, vp, vs)" and "l_variant item = Some sel"
  shows "restoreStock (orderItem item p vp vs) (reduceStock item p) = p"
proof (cases "variants p = []")
  case True
  with assms(2) show ?thesis
    by (simp add: restoreStock_def reduceStock_def orderItem_def readVariant_def truthyObj_def)
next
  case False
  with assms obtain v where
    v: "find (\<lambda>v. v_sku v = sel_sku sel) (variants p) = Some v" and vs: "vs = v_sku v"
    by (auto simp: orderResolve_def Let_def split: option.splits)
  from v have "v_sku v = sel_sku sel" by (auto simp: find_Some_iff)
  with vs have same: "vs = sel_sku sel" by simp
  have "updateFirst (\<lambda>v. v_sku v = sel_sku sel)
          (\<lambda>v. v\<lparr>v_stock := v_stock v + l_quantity item\<rparr>)
          (updateFirst (\<lambda>v. v_sku v = sel_sku sel)
            (\<lambda>v. v\<lparr>v_stock := v_stock v - l_quantity item\<rparr>) (variants p)) = variants p"
    by (rule updateFirst_inverse) simp_all
  with assms(2) same show ?thesis
    by (simp add: restoreStock_def reduceStock_def orderItem_def readVariant_def truthyObj_def)
qed

text \<open>
  For an order item without a variant the nested path still reads as an object, no variant
  has its undefined sku, and the branch that adds to the stock of the product is not
  reached: soldCount goes back, stock and variants stay.
\<close>

lemma restoreStock_without_variant:
  assumes "oi_variant item = None"
  shows "restoreStock item p = p\<lparr>soldCount := soldCount p - oi_quantity item\<rparr>"
proof -
  have "updateFirst (\<lambda>x. False) f xs = xs" for f and xs :: "variant list"
    by (induction xs) simp_all
  with assms show ?thesis
    by (simp add: restoreStock_def readVariant_def truthyObj_def)
qed

section \<open>Order Assembler\<close>

text \<open>
  C1 at a request of two lines, two mugs (stock 5) and three lamps (stock 1). The request
  is refused with the insufficient stock of the lamp, and the catalog it leaves has the mug
  at stock 3 and soldCount 2: the first line was saved before the second was checked.
\<close>

theorem createOrder_partial_decrement:
  "createOrder ''o1'' ''ORD-1'' ''u1''
     (request [orderLine ''p1'' None 2, orderLine ''p2'' None 3] None) shopStore =
     (Inl (InsufficientStock ''Lamp'' 1),
      shopStore\<lparr>products := (products shopStore)(''p1'' \<mapsto> mug\<lparr>stock := 3, soldCount := 2\<rparr>)\<rparr>) \<and>
   stock mug = 5 \<and> soldCount mug = 0"
  by (simp add: createOrder_def createOrderDocument_def request_def orderLine_def shopStore_def
      mug_def lamp_def orderResolve_def currentPrice_def reduceStock_def orderItem_def)

text \<open>
  C2, as the code has it. For every request with a non-empty coupon code whose lines are all
  accepted, the order document that \<open>createOrder\<close> builds records that code with a
  discount of one tenth of \<open>itemsPrice\<close>, and its \<open>totalPrice\<close> is
  \<open>itemsPrice + shippingPrice + taxPrice\<close> less that discount, which is not negative when
  \<open>itemsPrice\<close> is not negative. No coupon is looked up.
\<close>

theorem coupon_simulated_discount:
  assumes "fst (createOrderDocument usr req st) = Inr doc"
    and "r_couponCode req = Some cd" and "cd \<noteq> []"
  shows "coupon doc = Some \<lparr>oc_code = cd, oc_discount = itemsPrice doc / 10\<rparr> \<and>
         totalPrice doc = itemsPrice doc + shippingPrice doc + taxPrice doc - itemsPrice doc / 10 \<and>
         (0 \<le> itemsPrice doc \<longrightarrow> 0 \<le> totalPrice doc)"
  using createOrderDocument_fst [OF assms(1)] assms(2,3)
  by (elim createOrderDocument_success) (simp add: orderDocument_def Let_def)

theorem coupon_simulated_discount_witness:
  "fst (createOrderDocument ''u1'' (request [orderLine ''p1'' None 2] (Some ''SAVE5'')) shopStore) =
     Inr (draftOrder [mugItem 2] 100 8 0 98 (Some \<lparr>oc_code = ''SAVE5'', oc_discount = 10\<rparr>)) \<and>
   r_couponCode (request [orderLine ''p1'' None 2] (Some ''SAVE5'')) = Some ''SAVE5'' \<and>
   ''SAVE5'' \<noteq> [] \<and>
   coupon (draftOrder [mugItem 2] 100 8 0 98 (Some \<lparr>oc_code = ''SAVE5'', oc_discount = 10\<rparr>)) =
     Some \<lparr>oc_code = ''SAVE5'', oc_discount = 100 / 10\<rparr> \<and>
   totalPrice (draftOrder [mugItem 2] 100 8 0 98 (Some \<lparr>oc_code = ''SAVE5'', oc_discount = 10\<rparr>)) =
     100 + 0 + 8 - 100 / 10 \<and>
   (0::rat) \<le> itemsPrice (draftOrder [mugItem 2] 100 8 0 98
                              (Some \<lparr>oc_code = ''SAVE5'', oc_discount = 10\<rparr>))"
  using coupon_simulated_discount [of "''u1''"
      "request [orderLine ''p1'' None 2] (Some ''SAVE5'')" shopStore
      "draftOrder [mugItem 2] 100 8 0 98 (Some \<lparr>oc_code = ''SAVE5'', oc_discount = 10\<rparr>)"
      "''SAVE5''"]
  by (simp add: createOrderDocument_def orderDocument_def request_def orderLine_def
      shopStore_def mug_def orderResolve_def currentPrice_def reduceStock_def orderItem_def
      draftOrder_def placedOrder_def mugItem_def Let_def)

text \<open>
  C2 as stated fails: the store holds the coupon SAVE5, a fixed discount of 5 that is valid
  now, and \<open>calculateDiscount\<close> gives 5 on the items price 100 and on the total 108, but
  the order document built for a request of two mugs with the code SAVE5 subtracts 10.
\<close>

theorem coupon_not_evaluated_counterexample:
  "fst (createOrderDocument ''u1'' (request [orderLine ''p1'' None 2] (Some ''SAVE5'')) shopStore) =
     Inr (draftOrder [mugItem 2] 100 8 0 98 (Some \<lparr>oc_code = ''SAVE5'', oc_discount = 10\<rparr>)) \<and>
   coupons shopStore = [fiveOffCoupon] \<and> code fiveOffCoupon = ''SAVE5'' \<and>
   calculateDiscount 50 fiveOffCoupon 100 = Inr 5 \<and>
   calculateDiscount 50 fiveOffCoupon 108 = Inr 5 \<and> (10::rat) \<noteq> 5"
  by (simp add: createOrderDocument_def orderDocument_def request_def orderLine_def
      shopStore_def mug_def orderResolve_def currentPrice_def reduceStock_def orderItem_def
      draftOrder_def placedOrder_def mugItem_def Let_def calculateDiscount_def isValid_def
      isActiveNow_def fiveOffCoupon_def)

text \<open>
  C3, as the code has it. The order document that \<open>createOrder\<close> builds has a shipping
  charge of 0 when \<open>itemsPrice\<close> is greater than 50 and of 10 otherwise: at an
  \<open>itemsPrice\<close> of exactly 50 it is the flat fee 10. The cart summary applies the same rule
  to the subtotal of the read.
\<close>

theorem shipping_threshold:
  "(fst (getCart usr st) = Inr (its, sm) \<longrightarrow>
      shipping sm = (if subtotal sm > 50 then 0 else 10)) \<and>
   (fst (createOrderDocument usr' req st) = Inr doc \<longrightarrow>
      shippingPrice doc = (if itemsPrice doc > 50 then 0 else 10) \<and>
      (itemsPrice doc = 50 \<longrightarrow> shippingPrice doc = 10))"
proof (intro conjI impI)
  assume "fst (getCart usr st) = Inr (its, sm)"
  then show "shipping sm = (if subtotal sm > 50 then 0 else 10)"
    by (auto simp: getCart_def Let_def split: prod.splits if_splits)
next
  assume "fst (createOrderDocument usr' req st) = Inr doc"
  from createOrderDocument_fst [OF this]
  show o: "shippingPrice doc = (if itemsPrice doc > 50 then 0 else 10)"
    by (elim createOrderDocument_success) (simp add: orderDocument_fields)
  { assume "itemsPrice doc = 50" with o show "shippingPrice doc = 10" by simp }
qed

theorem shipping_threshold_witness:
  "fst (getCart ''u1'' shopStore) =
     Inr ([cartItem ''p1'' None 1 50],
          \<lparr>subtotal = 0, shipping = 10, tax = 0, total = 10, totalItems = 0\<rparr>) \<and>
   shipping \<lparr>subtotal = 0, shipping = 10, tax = 0, total = 10, totalItems = 0\<rparr> = 10 \<and>
   fst (createOrderDocument ''u1'' (request [orderLine ''p1'' None 1] None) shopStore) =
     Inr (draftOrder [mugItem 1] 50 4 10 64 None) \<and>
   itemsPrice (draftOrder [mugItem 1] 50 4 10 64 None) = 50 \<and>
   shippingPrice (draftOrder [mugItem 1] 50 4 10 64 None) = 10"
  using shipping_threshold [of "''u1''" shopStore "[cartItem ''p1'' None 1 50]"
      "\<lparr>subtotal = 0, shipping = 10, tax = 0, total = 10, totalItems = 0\<rparr>"
      "''u1''" "request [orderLine ''p1'' None 1] None"
      "draftOrder [mugItem 1] 50 4 10 64 None"]
  by (simp add: getCart_def cartLoop_skips cartValid_def cartItemValid_def cartItem_def
      cartOf_def createOrderDocument_def orderDocument_def request_def orderLine_def
      shopStore_def mug_def orderResolve_def currentPrice_def reduceStock_def orderItem_def
      draftOrder_def placedOrder_def mugItem_def Let_def)

text \<open>
  C3 as stated fails: the order document built for a request of one mug has an
  \<open>itemsPrice\<close> of exactly 50 and a shipping charge of 10, not 0.
\<close>

theorem free_shipping_at_threshold_counterexample:
  "fst (createOrderDocument ''u1'' (request [orderLine ''p1'' None 1] None) shopStore) =
     Inr (draftOrder [mugItem 1] 50 4 10 64 None) \<and>
   itemsPrice (draftOrder [mugItem 1] 50 4 10 64 None) = 50 \<and>
   shippingPrice (draftOrder [mugItem 1] 50 4 10 64 None) = 10 \<and> (10::rat) \<noteq> 0"
  by (simp add: createOrderDocument_def orderDocument_def request_def orderLine_def
      shopStore_def mug_def orderResolve_def currentPrice_def reduceStock_def orderItem_def
      draftOrder_def placedOrder_def mugItem_def Let_def)

section \<open>Pricing Primitives\<close>

text \<open>
  C4, as the code has it. For every line of the order document that \<open>createOrder\<close>
  builds that selects no variant or whose product has no variants, the unit price is the
  sale price when \<open>isOnSale\<close> is true and a non-zero sale price is set, whatever the sale
  window, and the base price otherwise.
\<close>

theorem unit_price_rule:
  "fst (createOrderDocument usr req st) = Inr doc \<and>
   j < length (r_items req) \<and> products st (l_product (r_items req ! j)) = Some q \<and>
   (l_variant (r_items req ! j) = None \<or> variants q = []) \<longrightarrow>
     oi_price (items doc ! j) =
       (if isOnSale q \<and> truthyNum (salePrice q) then the (salePrice q) else price q)"
proof
  assume a: "fst (createOrderDocument usr req st) = Inr doc \<and>
    j < length (r_items req) \<and> products st (l_product (r_items req ! j)) = Some q \<and>
    (l_variant (r_items req ! j) = None \<or> variants q = [])"
  then have "createOrderDocument usr req st =
      (Inr doc, snd (createOrderDocument usr req st))"
    by (intro createOrderDocument_fst) simp
  then obtain ois sub ps where
    run: "processItems (products st) (r_items req) [] 0 = (Inr (ois, sub), ps)"
    and its: "items doc = ois"
    by (auto elim: createOrderDocument_success simp: orderDocument_fields)
  from processItems_prices [OF run] have
    "list_all2 (\<lambda>l oi. \<forall>p. products st (l_product l) = Some p \<longrightarrow>
                               (l_variant l = None \<or> variants p = []) \<longrightarrow>
                               oi_price oi = currentPrice p) (r_items req) ois"
    by simp
  with a have "oi_price (ois ! j) = currentPrice q"
    by (auto dest: list_all2_nthD)
  with its show "oi_price (items doc ! j) =
        (if isOnSale q \<and> truthyNum (salePrice q) then the (salePrice q) else price q)"
    by (auto simp: currentPrice_def split: option.splits)
qed

theorem unit_price_rule_witness:
  "fst (createOrderDocument ''u1'' (request [orderLine ''p4'' None 1] None) shopStore) =
     Inr (draftOrder
            [\<lparr>oi_product = ''p4'', oi_name = ''Shirt'', oi_price = 80, oi_quantity = 1,
              oi_variant = None, oi_sku = ''SHIRT-S'', oi_total = 80\<rparr>]
            80 (32 / 5) 0 (432 / 5) None) \<and>
   (0::nat) < length (r_items (request [orderLine ''p4'' None 1] None)) \<and>
   products shopStore (l_product (r_items (request [orderLine ''p4'' None 1] None) ! 0)) =
     Some saleShirt \<and>
   l_variant (r_items (request [orderLine ''p4'' None 1] None) ! 0) = None \<and>
   isOnSale saleShirt \<and> salePrice saleShirt = Some 80 \<and>
   oi_price (items (draftOrder
            [\<lparr>oi_product = ''p4'', oi_name = ''Shirt'', oi_price = 80, oi_quantity = 1,
              oi_variant = None, oi_sku = ''SHIRT-S'', oi_total = 80\<rparr>]
            80 (32 / 5) 0 (432 / 5) None) ! 0) = 80"
  using unit_price_rule [of "''u1''" "request [orderLine ''p4'' None 1] None" shopStore
      "draftOrder
            [\<lparr>oi_product = ''p4'', oi_name = ''Shirt'', oi_price = 80, oi_quantity = 1,
              oi_variant = None, oi_sku = ''SHIRT-S'', oi_total = 80\<rparr>]
            80 (32 / 5) 0 (432 / 5) None" 0 saleShirt]
  by (simp add: createOrderDocument_def orderDocument_def request_def orderLine_def
      shopStore_def saleShirt_def orderResolve_def currentPrice_def reduceStock_def
      orderItem_def draftOrder_def placedOrder_def Let_def)

text \<open>
  C4 as stated fails: at time 30 the sale window of the shirt on sale (10 to 20) has ended,
  so the price of the claim is the base price 100, but the order document built for one such
  shirt prices it at the sale price 80.
\<close>

theorem sale_window_ignored_counterexample:
  "\<not> isOnSaleNow 30 saleShirt \<and> price saleShirt = 100 \<and>
   products shopStore ''p4'' = Some saleShirt \<and>
   map_sum id (map oi_price \<circ> items)
     (fst (createOrderDocument ''u1'' (request [orderLine ''p4'' None 1] None) shopStore)) =
     Inr [80]"
  by (simp add: isOnSaleNow_def createOrderDocument_def orderDocument_def request_def
      orderLine_def shopStore_def saleShirt_def orderResolve_def currentPrice_def
      reduceStock_def orderItem_def Let_def)

text \<open>In an order, the price of a matched variant replaces the sale price.\<close>

lemma order_variant_price_replaces_sale_price:
  "orderResolve (orderLine ''p4'' (Some (skuSelector ''SHIRT-S-M'')) 1) saleShirt =
     Inr (4, 120, ''SHIRT-S-M'')"
  by (simp add: orderResolve_def orderLine_def skuSelector_def saleShirt_def currentPrice_def)

text \<open>
  C5, as the code has it. Add-to-cart and order creation answer with the variant-not-found
  error when a selector is supplied, the product has at least one variant and none has the
  selector's sku; nothing is changed by add-to-cart, and order creation leaves the catalog
  as the lines before left it. When the product has no variants the selector is ignored:
  add-to-cart and order creation resolve stock, price and sku as they do without a
  selector, and add-to-cart does not answer with that error. A cart read never answers with
  that error.
\<close>

theorem variant_resolution:
  "(products st pid = Some p \<and> isActive p \<and> variants p \<noteq> [] \<and>
    find (\<lambda>v. v_sku v = sel_sku s) (variants p) = None \<longrightarrow>
      addToCart usr pid n (Some s) st = (Inl (VariantNotFound (sel_sku s)), st)) \<and>
   (r_items req = pre @ item # post \<and>
    processItems (products st) pre [] 0 = (Inr (ois, acc), ps) \<and>
    ps (l_product item) = Some p \<and> isActive p \<and> l_variant item = Some s \<and>
    variants p \<noteq> [] \<and> find (\<lambda>v. v_sku v = sel_sku s) (variants p) = None \<longrightarrow>
      createOrder newId orderNo usr req st =
        (Inl (VariantNotFound (sel_sku s)), st\<lparr>products := ps\<rparr>)) \<and>
   (variants q = [] \<longrightarrow>
      addResolve (Some s) q = addResolve None q \<and>
      (l_variant item' = Some s \<longrightarrow>
         orderResolve item' q = orderResolve (item'\<lparr>l_variant := None\<rparr>) q) \<and>
      (products st pid = Some q \<longrightarrow>
         fst (addToCart usr pid n (Some s) st) \<noteq> Inl (VariantNotFound sk))) \<and>
   fst (getCart usr st) \<noteq> Inl (VariantNotFound sk)"
proof (intro conjI impI)
  assume "products st pid = Some p \<and> isActive p \<and> variants p \<noteq> [] \<and>
    find (\<lambda>v. v_sku v = sel_sku s) (variants p) = None"
  then show "addToCart usr pid n (Some s) st = (Inl (VariantNotFound (sel_sku s)), st)"
    by (simp add: addToCart_def addResolve_def)
next
  assume a: "r_items req = pre @ item # post \<and>
    processItems (products st) pre [] 0 = (Inr (ois, acc), ps) \<and>
    ps (l_product item) = Some p \<and> isActive p \<and> l_variant item = Some s \<and>
    variants p \<noteq> [] \<and> find (\<lambda>v. v_sku v = sel_sku s) (variants p) = None"
  then have "processItems (products st) (r_items req) [] 0 =
      (Inl (VariantNotFound (sel_sku s)), ps)"
    by (simp add: processItems_append orderResolve_def)
  moreover have "r_items req \<noteq> []" using a by simp
  ultimately show "createOrder newId orderNo usr req st =
              (Inl (VariantNotFound (sel_sku s)), st\<lparr>products := ps\<rparr>)"
    by (simp add: createOrder_def createOrderDocument_def)
next
  assume "variants q = []"
  then show "addResolve (Some s) q = addResolve None q"
    by (simp add: addResolve_def)
next
  assume "variants q = []" and "l_variant item' = Some s"
  then show "orderResolve item' q = orderResolve (item'\<lparr>l_variant := None\<rparr>) q"
    by (simp add: orderResolve_def)
next
  assume "variants q = []" and "products st pid = Some q"
  then show "fst (addToCart usr pid n (Some s) st) \<noteq> Inl (VariantNotFound sk)"
    by (auto simp: addToCart_def addResolve_def saveCart_def Let_def
        split: option.splits if_splits)
next
  show "fst (getCart usr st) \<noteq> Inl (VariantNotFound sk)"
    by (auto simp: getCart_def Let_def split: prod.splits)
qed

theorem variant_resolution_witness:
  "products shopStore ''p3'' = Some shirt \<and> isActive shirt \<and> variants shirt \<noteq> [] \<and>
   find (\<lambda>v. v_sku v = sel_sku (skuSelector ''SHIRT-XL'')) (variants shirt) = None \<and>
   addToCart ''u1'' ''p3'' None (Some (skuSelector ''SHIRT-XL'')) shopStore =
     (Inl (VariantNotFound ''SHIRT-XL''), shopStore) \<and>
   r_items (request [orderLine ''p1'' None 2, orderLine ''p3'' (Some (skuSelector ''SHIRT-XL'')) 1]
              None) =
     [orderLine ''p1'' None 2] @ orderLine ''p3'' (Some (skuSelector ''SHIRT-XL'')) 1 # [] \<and>
   processItems (products shopStore) [orderLine ''p1'' None 2] [] 0 =
     (Inr ([mugItem 2], 100), (products shopStore)(''p1'' \<mapsto> mug\<lparr>stock := 3, soldCount := 2\<rparr>)) \<and>
   ((products shopStore)(''p1'' \<mapsto> mug\<lparr>stock := 3, soldCount := 2\<rparr>))
     (l_product (orderLine ''p3'' (Some (skuSelector ''SHIRT-XL'')) 1)) = Some shirt \<and>
   l_variant (orderLine ''p3'' (Some (skuSelector ''SHIRT-XL'')) 1) =
     Some (skuSelector ''SHIRT-XL'') \<and>
   createOrder ''o1'' ''ORD-1'' ''u1''
     (request [orderLine ''p1'' None 2, orderLine ''p3'' (Some (skuSelector ''SHIRT-XL'')) 1] None)
     shopStore =
     (Inl (VariantNotFound ''SHIRT-XL''),
      shopStore\<lparr>products := (products shopStore)(''p1'' \<mapsto> mug\<lparr>stock := 3, soldCount := 2\<rparr>)\<rparr>) \<and>
   variants mug = [] \<and> products shopStore ''p1'' = Some mug \<and>
   addResolve (Some (skuSelector ''MUG-XL'')) mug = Inr (5, 50, ''MUG'') \<and>
   l_variant (orderLine ''p1'' (Some (skuSelector ''MUG-XL'')) 1) = Some (skuSelector ''MUG-XL'') \<and>
   orderResolve (orderLine ''p1'' (Some (skuSelector ''MUG-XL'')) 1) mug = Inr (5, 50, ''MUG'')"
  using variant_resolution [where st = shopStore and pid = "''p3''" and p = shirt
      and s = "skuSelector ''SHIRT-XL''" and usr = "''u1''" and n = None
      and req = "request [orderLine ''p1'' None 2,
                          orderLine ''p3'' (Some (skuSelector ''SHIRT-XL'')) 1] None"
      and pre = "[orderLine ''p1'' None 2]"
      and item = "orderLine ''p3'' (Some (skuSelector ''SHIRT-XL'')) 1" and post = "[]"
      and ois = "[mugItem 2]" and acc = 100
      and ps = "(products shopStore)(''p1'' \<mapsto> mug\<lparr>stock := 3, soldCount := 2\<rparr>)"
      and newId = "''o1''" and orderNo = "''ORD-1''"]
    variant_resolution [where st = shopStore and pid = "''p1''" and q = mug
      and s = "skuSelector ''MUG-XL''" and usr = "''u1''" and n = None
      and item' = "orderLine ''p1'' (Some (skuSelector ''MUG-XL'')) 1"]
  by (simp add: shopStore_def shirt_def mug_def skuSelector_def request_def orderLine_def
      orderResolve_def addResolve_def currentPrice_def reduceStock_def orderItem_def
      mugItem_def)

text \<open>
  C5 as stated fails: the cart of user u2 holds two shirts with the selector SHIRT-XL, which
  no variant of the shirt has, and the cart read succeeds. Adding a mug with the selector
  MUG-XL succeeds as well: the mug has no variants, and the line is stored at the price 50
  and under the sku of the product.
\<close>

theorem variant_fallback_counterexample:
  "''SHIRT-XL'' \<notin> set (map v_sku (variants shirt)) \<and>
   carts shopStore ''u2'' =
     Some (cartOf ''u2'' [cartItem ''p3'' (Some (skuSelector ''SHIRT-XL'')) 2 120]) \<and>
   fst (getCart ''u2'' shopStore) =
     Inr ([cartItem ''p3'' (Some (skuSelector ''SHIRT-XL'')) 2 120],
          \<lparr>subtotal = 0, shipping = 10, tax = 0, total = 10, totalItems = 0\<rparr>) \<and>
   ''MUG-XL'' \<notin> set (map v_sku (variants mug)) \<and>
   fst (addToCart ''u1'' ''p1'' (Some 1) (Some (skuSelector ''MUG-XL'')) shopStore) =
     Inr (cartOf ''u1'' [cartItem ''p1'' None 1 50,
                         cartItem ''p1'' (Some (skuSelector ''MUG'')) 1 50])"
  by (simp add: getCart_def cartLoop_skips cartValid_def cartItemValid_def cartItem_def
      cartOf_def shopStore_def shirt_def mug_def skuSelector_def addToCart_def addResolve_def
      sameLine_def readVariant_def truthyObj_def saveCart_def Let_def)

section \<open>Order Lifecycle\<close>

text \<open>
  C8. An admin update that changes the status of an order to a valid status is accepted and
  appends exactly one record (the new status, the time, the note) to the status history; a
  cancellation of a pending or confirmed order by its owner is accepted and appends exactly
  one record (cancelled, the time, the reason). The records before stay as they were, and
  no other order is written. A cancellation from any other status answers with the
  invalid-transition error and leaves the whole store, so the history, unchanged.
\<close>

theorem status_history_append:
  "(orders st oid = Some ord \<and> parseStatus status = Some s \<and> s \<noteq> orderStatus ord \<longrightarrow>
      (\<exists>ord'. updateOrderStatus now oid status tracking carr st =
                 (Inr ord', st\<lparr>orders := (orders st)(oid \<mapsto> ord')\<rparr>) \<and>
              orderStatus ord' = s \<and>
              statusHistory ord' = statusHistory ord @
                [\<lparr>h_status = s, h_timestamp = now,
                  h_note = (if s = Cancelled then cancelledReason ord
                            else Some ''Status updated'')\<rparr>])) \<and>
   (orders st oid = Some ord \<and> user ord = usr \<and>
    (orderStatus ord = Pending \<or> orderStatus ord = Confirmed) \<longrightarrow>
      (\<exists>ord' ps. cancelOrder now oid usr reason st =
                 (Inr (), st\<lparr>orders := (orders st)(oid \<mapsto> ord'), products := ps\<rparr>) \<and>
              orderStatus ord' = Cancelled \<and>
              statusHistory ord' = statusHistory ord @
                [\<lparr>h_status = Cancelled, h_timestamp = now, h_note = reason\<rparr>])) \<and>
   (orders st oid = Some ord \<and> user ord = usr \<and>
    orderStatus ord \<noteq> Pending \<and> orderStatus ord \<noteq> Confirmed \<longrightarrow>
      cancelOrder now oid usr reason st = (Inl InvalidTransition, st))"
  by (auto simp: updateOrderStatus_def cancelOrder_def cancelOrderMethod_def preSave_def Let_def)

theorem status_history_append_witness:
  "orders soldStore ''o1'' = Some twoLineOrder \<and> parseStatus ''confirmed'' = Some Confirmed \<and>
   Confirmed \<noteq> orderStatus twoLineOrder \<and> user twoLineOrder = ''u1'' \<and>
   orderStatus twoLineOrder = Pending \<and>
   map_option statusHistory
     (orders (snd (updateOrderStatus 60 ''o1'' ''confirmed'' None None soldStore)) ''o1'') =
     Some [\<lparr>h_status = Confirmed, h_timestamp = 60, h_note = Some ''Status updated''\<rparr>] \<and>
   map_option statusHistory
     (orders (snd (cancelOrder 70 ''o1'' ''u1'' (Some ''changed my mind'') soldStore)) ''o1'') =
     Some [\<lparr>h_status = Cancelled, h_timestamp = 70, h_note = Some ''changed my mind''\<rparr>] \<and>
   orders shippedStore ''o1'' = Some (twoLineOrder\<lparr>orderStatus := Shipped\<rparr>) \<and>
   orderStatus (twoLineOrder\<lparr>orderStatus := Shipped\<rparr>) \<noteq> Pending \<and>
   orderStatus (twoLineOrder\<lparr>orderStatus := Shipped\<rparr>) \<noteq> Confirmed \<and>
   cancelOrder 70 ''o1'' ''u1'' (Some ''changed my mind'') shippedStore =
     (Inl InvalidTransition, shippedStore)"
  using status_history_append [where st = soldStore and oid = "''o1''" and ord = twoLineOrder
      and status = "''confirmed''" and s = Confirmed and usr = "''u1''" and now = 60
      and tracking = None and carr = None and reason = "Some ''changed my mind''"]
    status_history_append [where st = soldStore and oid = "''o1''" and ord = twoLineOrder
      and status = "''confirmed''" and s = Confirmed and usr = "''u1''" and now = 70
      and tracking = None and carr = None and reason = "Some ''changed my mind''"]
    status_history_append [where st = shippedStore and oid = "''o1''"
      and ord = "twoLineOrder\<lparr>orderStatus := Shipped\<rparr>"
      and status = "''confirmed''" and s = Confirmed and usr = "''u1''" and now = 70
      and tracking = None and carr = None and reason = "Some ''changed my mind''"]
  by (auto simp: soldStore_def shippedStore_def twoLineOrder_def placedOrder_def
      parseStatus_def)

text \<open>
  An admin update to the status the order already has is accepted and appends nothing, and
  an update to a string outside the enum fails the save and writes nothing.
\<close>

lemma update_without_status_change:
  assumes "orders st oid = Some ord"
  shows "(parseStatus status = Some (orderStatus ord) \<longrightarrow>
            (\<exists>ord'. fst (updateOrderStatus now oid status tracking carr st) = Inr ord' \<and>
                    statusHistory ord' = statusHistory ord)) \<and>
         (parseStatus status = None \<longrightarrow>
            updateOrderStatus now oid status tracking carr st = (Inl ServerError, st))"
  using assms by (auto simp: updateOrderStatus_def preSave_def Let_def)

text \<open>
  C9 at a stored pending order of two mugs, a line without variant, and one shirt of variant
  SHIRT-M, with the catalog as the lines of the order leave it (mug at stock 3 and soldCount
  2, where it was 5 and 0). The cancellation succeeds, restores the stock of the variant and
  both soldCounts, and leaves the stock of the mug at 3: the variant of the stored order item
  reads as an object, so the branch that adds to the stock of the product is not reached.
\<close>

theorem cancel_leaves_product_stock_reduced:
  "orders soldStore ''o1'' = Some twoLineOrder \<and> orderStatus twoLineOrder = Pending \<and>
   map_option stock (products soldStore ''p1'') = Some 3 \<and>
   fst (cancelOrder 70 ''o1'' ''u1'' (Some ''changed my mind'') soldStore) = Inr () \<and>
   products (snd (cancelOrder 70 ''o1'' ''u1'' (Some ''changed my mind'') soldStore)) ''p1'' =
     Some (mug\<lparr>stock := 3\<rparr>) \<and>
   products (snd (cancelOrder 70 ''o1'' ''u1'' (Some ''changed my mind'') soldStore)) ''p3'' =
     Some shirt \<and>
   stock mug = 5"
  by (simp add: cancelOrder_def restoreStock_def readVariant_def truthyObj_def soldStore_def
      shopStore_def twoLineOrder_def placedOrder_def mugItem_def shirtItem_def skuSelector_def
      mug_def shirt_def)


end
